theory Spec2Isabelle
  imports Main "HOL-Library.Word"
begin

section \<open>JSON values\<close>

text \<open>
  Tool arguments, tool results and MCP responses are JSON-like JavaScript values.
  A number is an integer from \<^verbatim>\<open>-2^53\<close> up to \<^verbatim>\<open>2^53 - 1\<close>, held in a signed word of
  54 bits: JavaScript represents each of them exactly and prints it in plain decimal.
  Other numbers are not values of the type.  An object is the list of its own
  enumerable properties in enumeration order.
\<close>

datatype json =
    JNull
  | JBool bool
  | JNum "54 word"
  | JStr string
  | JArr "json list"
  | JObj "(string \<times> json) list"

text \<open>The built-in \<^verbatim>\<open>JSON.stringify\<close> on such values (no indentation, no replacer).\<close>

definition digit_char :: "nat \<Rightarrow> char" where
  "digit_char n = ''0123456789abcdef'' ! (n mod 16)"

fun show_nat :: "nat \<Rightarrow> string" where
  "show_nat n = (if n < 10 then [digit_char n] else show_nat (n div 10) @ [digit_char (n mod 10)])"

declare show_nat.simps [simp del]

definition show_int :: "int \<Rightarrow> string" where
  "show_int i = (if i < 0 then CHR ''-'' # show_nat (nat (- i)) else show_nat (nat i))"

definition escape_char :: "char \<Rightarrow> string" where
  "escape_char c =
     (if c = CHR 0x22 then [CHR 0x5C, CHR 0x22]
      else if c = CHR 0x5C then [CHR 0x5C, CHR 0x5C]
      else if c = CHR 0x08 then [CHR 0x5C, CHR ''b'']
      else if c = CHR 0x0C then [CHR 0x5C, CHR ''f'']
      else if c = CHR 0x0A then [CHR 0x5C, CHR ''n'']
      else if c = CHR 0x0D then [CHR 0x5C, CHR ''r'']
      else if c = CHR 0x09 then [CHR 0x5C, CHR ''t'']
      else if (of_char c :: nat) < 32
        then [CHR 0x5C, CHR ''u'', CHR ''0'', CHR ''0'',
              digit_char (of_char c div 16), digit_char (of_char c mod 16)]
      else [c])"

definition quote_json :: "string \<Rightarrow> string" where
  "quote_json s = CHR 0x22 # concat (map escape_char s) @ [CHR 0x22]"

fun intercalate :: "string \<Rightarrow> string list \<Rightarrow> string" where
  "intercalate sep [] = []"
| "intercalate sep [x] = x"
| "intercalate sep (x # y # ys) = x @ sep @ intercalate sep (y # ys)"

fun stringify :: "json \<Rightarrow> string" where
  "stringify JNull = ''null''"
| "stringify (JBool b) = (if b then ''true'' else ''false'')"
| "stringify (JNum n) = show_int (sint n)"
| "stringify (JStr s) = quote_json s"
| "stringify (JArr xs) = ''['' @ intercalate '','' (map stringify xs) @ '']''"
| "stringify (JObj kvs) =
     ''{'' @ intercalate '','' (map (\<lambda>(k, v). quote_json k @ '':'' @ stringify v) kvs) @ ''}''"

section \<open>Source blocks\<close>


definition or_default :: "string option \<Rightarrow> string \<Rightarrow> string" where
  "or_default x d = (case x of None \<Rightarrow> d | Some s \<Rightarrow> if s = [] then d else s)"

text \<open>
  \<^verbatim>\<open>a ?? b\<close>: only an absent left operand falls through to the right one.
\<close>

definition nullish_or :: "'a option \<Rightarrow> 'a option \<Rightarrow> 'a option" where
  "nullish_or a b = (case a of None \<Rightarrow> b | Some x \<Rightarrow> Some x)"

text \<open>The record of one MCP tool invocation, stored in a tool block's metadata.\<close>

record mcp_tool =
  tool_type :: "string option"
  tool_name :: "string option"

record mcp_tool_response =
  tr_id :: "string option"
  tr_toolCallId :: "string option"
  tr_tool :: "mcp_tool option"
  tr_toolName :: "string option"
  tr_arguments :: "json option"
  tr_status :: string
  tr_response :: "json option"

text \<open>
  A tool block.  \<open>content = None\<close> is \<^verbatim>\<open>undefined\<close>, \<open>content = Some JNull\<close> is
  \<^verbatim>\<open>null\<close>; \<open>arguments = None\<close> is an absent argument object.
\<close>

record tool_block =
  block_id :: string
  toolId :: "string option"
  toolName :: "string option"
  arguments :: "(string \<times> json) list option"
  content :: "json option"
  rawMcpToolResponse :: "mcp_tool_response option"

record file_block =
  file_path :: string
  origin_name :: string

record image_block =
  image_file :: "string option"
  image_url :: "string option"

section \<open>Request parts and messages\<close>

datatype file_data = DataString string | DataBinary "nat list" | DataUrl string

record file_part =
  data :: file_data
  mediaType :: string
  filename :: "string option"

datatype tool_output =
    OutputString string
  | OutputText "string option"
  | OutputJson json
  | OutputErrorText "string option"

datatype part =
    TextPart string
  | ReasoningPart string
  | ImagePart string "string option"
  | FilePart file_part
  | ToolCallPart "string option" "string option" "json option"
  | ToolResultPart "string option" "string option" tool_output

datatype role = System | User | Assistant | Tool

datatype msg_content = ContentString string | ContentParts "part list"

datatype model_message = ModelMessage (msg_role: role) (msg_content: msg_content)

datatype sdk_param = Single model_message | Multiple "model_message list"

datatype error = TypeError

fun is_tool_call :: "part \<Rightarrow> bool" where
  "is_tool_call (ToolCallPart i n a) = True"
| "is_tool_call p = False"

fun is_tool_result :: "part \<Rightarrow> bool" where
  "is_tool_result (ToolResultPart i n out) = True"
| "is_tool_result p = False"

fun part_output :: "part \<Rightarrow> tool_output option" where
  "part_output (ToolResultPart i n out) = Some out"
| "part_output p = None"

section \<open>Tool pairing, one part per block (src/unnamed/part\_001)\<close>

text \<open>
  The module-level \<^verbatim>\<open>toolCallIdCache\<close> and the number of identifiers generated so far.
  \<^verbatim>\<open>generateToolCallId\<close> reads the clock and the random generator: the \<open>n\<close>-th call
  observes \<open>entropy n\<close>, the pair of \<^verbatim>\<open>Date.now()\<close> and the random suffix.
\<close>

record id_state =
  toolCallIdCache :: "string \<rightharpoonup> string"
  generated :: nat

type_synonym entropy = "nat \<Rightarrow> nat \<times> string"

definition generateToolCallId :: "entropy \<Rightarrow> id_state \<Rightarrow> string \<times> id_state" where
  "generateToolCallId e s =
     (''tool_'' @ show_nat (fst (e (generated s))) @ ''_'' @ snd (e (generated s)),
      s\<lparr>generated := Suc (generated s)\<rparr>)"

definition getToolCallId :: "entropy \<Rightarrow> tool_block \<Rightarrow> id_state \<Rightarrow> string \<times> id_state" where
  "getToolCallId e b s =
     (case toolId b of
        Some t \<Rightarrow>
          if t \<noteq> [] then (t, s)
          else (case toolCallIdCache s (block_id b) of
                  Some i \<Rightarrow> (i, s)
                | None \<Rightarrow>
                    (let (newId, s') = generateToolCallId e s
                     in (newId, s'\<lparr>toolCallIdCache := (toolCallIdCache s')(block_id b \<mapsto> newId)\<rparr>)))
      | None \<Rightarrow>
          (case toolCallIdCache s (block_id b) of
             Some i \<Rightarrow> (i, s)
           | None \<Rightarrow>
               (let (newId, s') = generateToolCallId e s
                in (newId, s'\<lparr>toolCallIdCache := (toolCallIdCache s')(block_id b \<mapsto> newId)\<rparr>))))"


text \<open>\<^verbatim>\<open>content !== undefined && content !== null\<close>\<close>

definition has_content :: "tool_block \<Rightarrow> bool" where
  "has_content b = (content b \<noteq> None \<and> content b \<noteq> Some JNull)"

text \<open>
  \<^verbatim>\<open>typeof content === 'string' ? content : JSON.stringify(content)\<close>, evaluated only
  for a block that has a content.
\<close>

definition content_output :: "tool_block \<Rightarrow> string" where
  "content_output b =
     (case content b of
        Some (JStr s) \<Rightarrow> s
      | Some v \<Rightarrow> stringify v
      | None \<Rightarrow> [])"

text \<open>\<^verbatim>\<open>arguments && Object.keys(arguments).length > 0\<close>\<close>

definition has_arguments :: "tool_block \<Rightarrow> bool" where
  "has_arguments b = (case arguments b of None \<Rightarrow> False | Some kvs \<Rightarrow> length kvs > 0)"

definition convertToolBlockToToolPart ::
  "entropy \<Rightarrow> tool_block \<Rightarrow> id_state \<Rightarrow> part option \<times> id_state" where
  "convertToolBlockToToolPart e b s =
     (let (toolCallId, s') = getToolCallId e b s;
          name = or_default (toolName b) ''unknown_tool''
      in if has_content b
           then (Some (ToolResultPart (Some toolCallId) (Some name) (OutputString (content_output b))), s')
         else if has_arguments b
           then (Some (ToolCallPart (Some toolCallId) (Some name)
                        (map_option JObj (arguments b))), s')
         else (None, s'))"

definition convertToolBlockToToolResultPart_p1 ::
  "entropy \<Rightarrow> tool_block \<Rightarrow> id_state \<Rightarrow> part option \<times> id_state" where
  "convertToolBlockToToolResultPart_p1 e b s =
     (if \<not> has_content b then (None, s)
      else (let (toolCallId, s') = getToolCallId e b s;
                name = or_default (toolName b) ''unknown_tool''
            in (Some (ToolResultPart (Some toolCallId) (Some name) (OutputString (content_output b))), s')))"

section \<open>Tool pairing, call and result per block (messageConverter.ts)\<close>

definition convertToolBlockToToolCallPart :: "tool_block \<Rightarrow> part" where
  "convertToolBlockToToolCallPart b =
     ToolCallPart (toolId b) (Some (or_default (toolName b) ''unknown''))
       (Some (JObj (case arguments b of None \<Rightarrow> [] | Some kvs \<Rightarrow> kvs)))"

definition convertToolBlockToToolResultPart :: "tool_block \<Rightarrow> part" where
  "convertToolBlockToToolResultPart b =
     ToolResultPart (toolId b) (Some (or_default (toolName b) ''unknown''))
       (case content b of
          None \<Rightarrow> OutputText (Some [])
        | Some JNull \<Rightarrow> OutputText (Some [])
        | Some (JStr s) \<Rightarrow> OutputText (Some s)
        | Some v \<Rightarrow> OutputJson v)"

definition hasToolResult :: "tool_block \<Rightarrow> bool" where
  "hasToolResult b = (content b \<noteq> None \<and> content b \<noteq> Some JNull)"

text \<open>The loop over the tool blocks: the call part, then the result part when there is one.\<close>

fun toolBlockParts :: "tool_block list \<Rightarrow> part list" where
  "toolBlockParts [] = []"
| "toolBlockParts (b # bs) =
     (convertToolBlockToToolCallPart b
        # (if hasToolResult b then [convertToolBlockToToolResultPart b] else []))
     @ toolBlockParts bs"

section \<open>External collaborators\<close>

text \<open>
  The file processor, the file system, the model capability lookups and the JSON
  parser of the SDK are not part of the conversion module; they are parameters.
  \<open>readImageFile path\<close> is \<open>None\<close> when opening or reading the file throws,
  otherwise the base64 text and the file's type.  \<open>findImageBlocksOfUndefined\<close> is
  what the block extractor does when handed \<^verbatim>\<open>undefined\<close> instead of a message.
\<close>

record 'm collab =
  convertFileBlockToFilePart :: "file_block \<Rightarrow> 'm \<Rightarrow> file_part option"
  convertFileBlockToTextPart :: "file_block \<Rightarrow> string option"
  readImageFile :: "string \<Rightarrow> (string \<times> string) option"
  isVisionModel :: "'m \<Rightarrow> bool"
  isImageEnhancementModel :: "'m \<Rightarrow> bool"
  findImageBlocksOfUndefined :: "error + image_block list"
  safeParseJSON :: "string \<Rightarrow> json option"

text \<open>A source message, given by what the five block extractors return for it.\<close>

record message =
  role :: role
  mainTextContent :: string
  fileBlocks :: "file_block list"
  imageBlocks :: "image_block list"
  thinkingBlocks :: "string list"
  toolBlocks :: "tool_block list"

section \<open>Image materializer\<close>

definition starts_with :: "string \<Rightarrow> string \<Rightarrow> bool" where
  "starts_with p s = (take (length p) s = p)"

definition is_line_terminator :: "char \<Rightarrow> bool" where
  "is_line_terminator c = (c = CHR 0x0A \<or> c = CHR 0x0D)"

text \<open>
  \<^verbatim>\<open>url.match(/^data:[^;]*;base64,(.+)$/)\<close>, giving group 1.  The class \<^verbatim>\<open>[^;]*\<close> stops
  at the first semicolon, which must open \<^verbatim>\<open>;base64,\<close>; the dot takes no line
  terminator and the payload runs to the end of the string.
\<close>

definition match_data_base64 :: "string \<Rightarrow> string option" where
  "match_data_base64 url =
     (if \<not> starts_with ''data:'' url then None
      else (let rest = dropWhile (\<lambda>c. c \<noteq> CHR '';'') (drop 5 url)
            in if \<not> starts_with '';base64,'' rest then None
               else (let payload = drop 8 rest
                     in if payload = [] \<or> list_ex is_line_terminator payload then None
                        else Some payload)))"

text \<open>\<^verbatim>\<open>url.match(/^data:([^;]+)/)\<close>, giving group 1.\<close>

definition match_data_mime :: "string \<Rightarrow> string option" where
  "match_data_mime url =
     (if \<not> starts_with ''data:'' url then None
      else (let m = takeWhile (\<lambda>c. c \<noteq> CHR '';'') (drop 5 url)
            in if m = [] then None else Some m))"

text \<open>
  The body of the loop of \<^verbatim>\<open>convertImageBlockToImagePart\<close> for one block: the part it
  pushes, if any, or the exception that leaves the loop.  Indexing the \<^verbatim>\<open>null\<close> of a
  failed match throws a \<^verbatim>\<open>TypeError\<close> outside any \<^verbatim>\<open>try\<close>.
\<close>

definition imageBlockPart :: "'m collab \<Rightarrow> image_block \<Rightarrow> error + part option" where
  "imageBlockPart c b =
     (case image_file b of
        Some path \<Rightarrow>
          (case readImageFile c path of
             Some (base64, ty) \<Rightarrow> Inr (Some (ImagePart base64 (Some ty)))
           | None \<Rightarrow> Inr None)
      | None \<Rightarrow>
          (case image_url b of
             None \<Rightarrow> Inr None
           | Some url \<Rightarrow>
               if url = [] then Inr None
               else if starts_with ''data:'' url then
                 (case match_data_base64 url of
                    None \<Rightarrow> Inl TypeError
                  | Some base64 \<Rightarrow>
                      Inr (Some (ImagePart base64
                        (Some (case match_data_mime url of
                                 Some m \<Rightarrow> m
                               | None \<Rightarrow> ''image/png'')))))
               else Inr (Some (ImagePart url None))))"

fun convertImageBlockToImagePart :: "'m collab \<Rightarrow> image_block list \<Rightarrow> error + part list" where
  "convertImageBlockToImagePart c [] = Inr []"
| "convertImageBlockToImagePart c (b # bs) =
     (case imageBlockPart c b of
        Inl err \<Rightarrow> Inl err
      | Inr p \<Rightarrow>
          (case convertImageBlockToImagePart c bs of
             Inl err \<Rightarrow> Inl err
           | Inr ps \<Rightarrow> Inr ((case p of None \<Rightarrow> [] | Some x \<Rightarrow> [x]) @ ps)))"

section \<open>User and system messages\<close>

definition is_file_handle :: "file_part \<Rightarrow> bool" where
  "is_file_handle fp =
     (case data fp of DataString d \<Rightarrow> starts_with ''fileid://'' d | _ \<Rightarrow> False)"

definition handle_string :: "file_part \<Rightarrow> string" where
  "handle_string fp = (case data fp of DataString d \<Rightarrow> d | _ \<Rightarrow> [])"

text \<open>The native attempt on one file block: made only when a model is given.\<close>

definition nativeFilePart :: "'m collab \<Rightarrow> 'm option \<Rightarrow> file_block \<Rightarrow> file_part option" where
  "nativeFilePart c model fb =
     (case model of None \<Rightarrow> None | Some m \<Rightarrow> convertFileBlockToFilePart c fb m)"

text \<open>
  The loop over the file blocks of \<^verbatim>\<open>convertMessageToUserModelMessage\<close>, with the
  parts pushed so far; a file handle returns from inside the loop.
\<close>

fun userFileLoop :: "'m collab \<Rightarrow> 'm option \<Rightarrow> file_block list \<Rightarrow> part list \<Rightarrow> sdk_param" where
  "userFileLoop c model [] parts = Single (ModelMessage User (ContentParts parts))"
| "userFileLoop c model (fb # fbs) parts =
     (case nativeFilePart c model fb of
        Some fp \<Rightarrow>
          if is_file_handle fp
          then Multiple
                 [ModelMessage System (ContentString (handle_string fp)),
                  ModelMessage User (if length parts > 0 then ContentParts parts else ContentString [])]
          else userFileLoop c model fbs (parts @ [FilePart fp])
      | None \<Rightarrow>
          (case convertFileBlockToTextPart c fb of
             Some t \<Rightarrow> userFileLoop c model fbs (parts @ [TextPart t])
           | None \<Rightarrow> userFileLoop c model fbs parts))"

definition convertMessageToUserModelMessage ::
  "'m collab \<Rightarrow> string \<Rightarrow> file_block list \<Rightarrow> image_block list \<Rightarrow> bool \<Rightarrow> 'm option
     \<Rightarrow> error + sdk_param" where
  "convertMessageToUserModelMessage c text fbs ibs isVision model =
     (let parts = (if text \<noteq> [] then [TextPart text] else [])
      in case (if isVision then convertImageBlockToImagePart c ibs else Inr []) of
           Inl err \<Rightarrow> Inl err
         | Inr images \<Rightarrow> Inr (userFileLoop c model fbs (parts @ images)))"

section \<open>Assistant messages and the conversation (messageConverter.ts)\<close>

text \<open>The loop over the file blocks of an assistant message: native first, then text.\<close>

fun assistantFileParts :: "'m collab \<Rightarrow> 'm option \<Rightarrow> file_block list \<Rightarrow> part list" where
  "assistantFileParts c model [] = []"
| "assistantFileParts c model (fb # fbs) =
     (case nativeFilePart c model fb of
        Some fp \<Rightarrow> FilePart fp # assistantFileParts c model fbs
      | None \<Rightarrow>
          (case convertFileBlockToTextPart c fb of
             Some t \<Rightarrow> TextPart t # assistantFileParts c model fbs
           | None \<Rightarrow> assistantFileParts c model fbs))"

definition convertMessageToAssistantAndToolMessages ::
  "'m collab \<Rightarrow> string \<Rightarrow> file_block list \<Rightarrow> tool_block list \<Rightarrow> string list \<Rightarrow> 'm option
     \<Rightarrow> sdk_param" where
  "convertMessageToAssistantAndToolMessages c text fbs tbs thinking model =
     (let assistantParts =
            (if text \<noteq> [] then [TextPart text] else [])
            @ map ReasoningPart thinking
            @ assistantFileParts c model fbs
      in if length tbs = 0
         then Single (ModelMessage Assistant (ContentParts assistantParts))
         else Single (ModelMessage Assistant (ContentParts (assistantParts @ toolBlockParts tbs))))"

definition convertMessageToSdkParam ::
  "'m collab \<Rightarrow> message \<Rightarrow> bool \<Rightarrow> 'm option \<Rightarrow> error + sdk_param" where
  "convertMessageToSdkParam c m isVision model =
     (if role m = User \<or> role m = System
      then convertMessageToUserModelMessage c (mainTextContent m) (fileBlocks m) (imageBlocks m)
             isVision model
      else Inr (convertMessageToAssistantAndToolMessages c (mainTextContent m) (fileBlocks m)
                  (toolBlocks m) (thinkingBlocks m) model))"

text \<open>\<^verbatim>\<open>Array.isArray(sdkMessage) ? sdkMessage : [sdkMessage]\<close>\<close>

fun as_list :: "sdk_param \<Rightarrow> model_message list" where
  "as_list (Single m) = [m]"
| "as_list (Multiple ms) = ms"

text \<open>\<^verbatim>\<open>xs.slice(-2)\<close>: the last two elements, or all of a shorter list.\<close>

definition slice_last2 :: "'a list \<Rightarrow> 'a list" where
  "slice_last2 xs = drop (length xs - 2) xs"

definition findImageBlocks :: "'m collab \<Rightarrow> message option \<Rightarrow> error + image_block list" where
  "findImageBlocks c m =
     (case m of None \<Rightarrow> findImageBlocksOfUndefined c | Some x \<Rightarrow> Inr (imageBlocks x))"

text \<open>
  The special handling of image enhancement models, the same text in every version of
  the module.  \<^verbatim>\<open>filter(...)[0]\<close> is \<^verbatim>\<open>undefined\<close> when nothing passes the filter, so
  the returned array may hold \<^verbatim>\<open>undefined\<close> (here \<open>None\<close>) in the assistant's place;
  reading \<^verbatim>\<open>content\<close> of an undefined user message throws.
\<close>

definition imageEnhancement ::
  "'m collab \<Rightarrow> message list \<Rightarrow> model_message list \<Rightarrow> error + model_message option list" where
  "imageEnhancement c messages sdkMessages =
     (let needUpdatedMessages = slice_last2 messages;
          needUpdatedSdkMessages = slice_last2 sdkMessages;
          assistantMessage = find (\<lambda>m. role m = Assistant) needUpdatedMessages;
          assistantSdkMessage = find (\<lambda>m. msg_role m = Assistant) needUpdatedSdkMessages;
          userSdkMessage = find (\<lambda>m. msg_role m = User) needUpdatedSdkMessages;
          systemSdkMessages = filter (\<lambda>m. msg_role m = System) sdkMessages
      in case findImageBlocks c assistantMessage of
           Inl err \<Rightarrow> Inl err
         | Inr blocks \<Rightarrow>
             (case convertImageBlockToImagePart c blocks of
                Inl err \<Rightarrow> Inl err
              | Inr imageParts \<Rightarrow>
                  (case userSdkMessage of
                     None \<Rightarrow> Inl TypeError
                   | Some u \<Rightarrow>
                       (let u' = ModelMessage (msg_role u)
                                   (case msg_content u of
                                      ContentString t \<Rightarrow> ContentParts (TextPart t # imageParts)
                                    | ContentParts ps \<Rightarrow> ContentParts (ps @ imageParts))
                        in Inr (case systemSdkMessages of
                                  [] \<Rightarrow> [assistantSdkMessage, Some u']
                                | sys # _ \<Rightarrow> [Some sys, assistantSdkMessage, Some u'])))))"

text \<open>The loop of \<^verbatim>\<open>convertMessagesToSdkMessages\<close>: an exception leaves it at once.\<close>

fun convertAll :: "'m collab \<Rightarrow> bool \<Rightarrow> 'm option \<Rightarrow> message list \<Rightarrow> error + model_message list" where
  "convertAll c isVision model [] = Inr []"
| "convertAll c isVision model (m # ms) =
     (case convertMessageToSdkParam c m isVision model of
        Inl err \<Rightarrow> Inl err
      | Inr r \<Rightarrow>
          (case convertAll c isVision model ms of
             Inl err \<Rightarrow> Inl err
           | Inr rest \<Rightarrow> Inr (as_list r @ rest)))"

definition convertMessagesToSdkMessages ::
  "'m collab \<Rightarrow> message list \<Rightarrow> 'm \<Rightarrow> error + model_message option list" where
  "convertMessagesToSdkMessages c messages model =
     (case convertAll c (isVisionModel c model) (Some model) messages of
        Inl err \<Rightarrow> Inl err
      | Inr sdkMessages \<Rightarrow>
          if isImageEnhancementModel c model \<and> length messages \<ge> 3
          then imageEnhancement c messages sdkMessages
          else Inr (map Some sdkMessages))"

section \<open>Assistant and tool messages, one part per block (src/unnamed/part\_001)\<close>

text \<open>The loop over the tool blocks of an assistant message; every block derives its identifier.\<close>

fun toolPartsLoop :: "entropy \<Rightarrow> tool_block list \<Rightarrow> id_state \<Rightarrow> part list \<times> id_state" where
  "toolPartsLoop e [] s = ([], s)"
| "toolPartsLoop e (b # bs) s =
     (let (p, s1) = convertToolBlockToToolPart e b s;
          (ps, s2) = toolPartsLoop e bs s1
      in ((case p of None \<Rightarrow> [] | Some x \<Rightarrow> [x]) @ ps, s2))"

definition convertMessageToAssistantModelMessage_p1 ::
  "entropy \<Rightarrow> 'm collab \<Rightarrow> string \<Rightarrow> file_block list \<Rightarrow> string list \<Rightarrow> tool_block list
     \<Rightarrow> 'm option \<Rightarrow> id_state \<Rightarrow> model_message \<times> id_state" where
  "convertMessageToAssistantModelMessage_p1 e c text fbs thinking tbs model s =
     (let (toolParts, s') = toolPartsLoop e tbs s
      in (ModelMessage Assistant
            (ContentParts
               ((if text \<noteq> [] then [TextPart text] else [])
                @ map ReasoningPart thinking
                @ toolParts
                @ assistantFileParts c model fbs)),
          s'))"

text \<open>The loop of \<^verbatim>\<open>convertMessageToToolModelMessage\<close>: a block without content is skipped.\<close>

fun toolResultsLoop :: "entropy \<Rightarrow> tool_block list \<Rightarrow> id_state \<Rightarrow> part list \<times> id_state" where
  "toolResultsLoop e [] s = ([], s)"
| "toolResultsLoop e (b # bs) s =
     (if content b = None \<or> content b = Some JNull then toolResultsLoop e bs s
      else (let (p, s1) = convertToolBlockToToolResultPart_p1 e b s;
                (ps, s2) = toolResultsLoop e bs s1
            in ((case p of None \<Rightarrow> [] | Some x \<Rightarrow> [x]) @ ps, s2)))"

definition convertMessageToToolModelMessage ::
  "entropy \<Rightarrow> tool_block list \<Rightarrow> id_state \<Rightarrow> model_message \<times> id_state" where
  "convertMessageToToolModelMessage e tbs s =
     (let (parts, s') = toolResultsLoop e tbs s
      in (ModelMessage Tool (ContentParts parts), s'))"

definition convertMessageToSdkParam_p1 ::
  "entropy \<Rightarrow> 'm collab \<Rightarrow> message \<Rightarrow> bool \<Rightarrow> 'm option \<Rightarrow> id_state
     \<Rightarrow> (error + sdk_param) \<times> id_state" where
  "convertMessageToSdkParam_p1 e c m isVision model s =
     (if role m = User \<or> role m = System
      then (convertMessageToUserModelMessage c (mainTextContent m) (fileBlocks m) (imageBlocks m)
              isVision model, s)
      else if role m = Assistant
      then (let (msg, s') = convertMessageToAssistantModelMessage_p1 e c (mainTextContent m)
                              (fileBlocks m) (thinkingBlocks m) (toolBlocks m) model s
            in (Inr (Single msg), s'))
      else if role m = Tool
      then (let (msg, s') = convertMessageToToolModelMessage e (toolBlocks m) s
            in (Inr (Single msg), s'))
      else (let (msg, s') = convertMessageToAssistantModelMessage_p1 e c (mainTextContent m)
                              (fileBlocks m) (thinkingBlocks m) (toolBlocks m) model s
            in (Inr (Single msg), s')))"







section \<open>Tool history replay (src/unnamed/part\_002)\<close>

text \<open>
  \<^verbatim>\<open>stringifyToolOutput\<close>.  \<^verbatim>\<open>JSON.stringify(undefined)\<close> is \<^verbatim>\<open>undefined\<close>, not a string;
  on the values of type \<open>json\<close> it never throws, so the \<^verbatim>\<open>catch\<close> branch is not reached.
\<close>

definition stringifyToolOutput :: "json option \<Rightarrow> string option" where
  "stringifyToolOutput v =
     (case v of
        Some (JStr s) \<Rightarrow> Some s
      | Some j \<Rightarrow> Some (stringify j)
      | None \<Rightarrow> None)"

text \<open>\<^verbatim>\<open>tr?.tool?.type !== 'provider'\<close> fails exactly for these records.\<close>

definition is_provider :: "mcp_tool_response \<Rightarrow> bool" where
  "is_provider tr = (case tr_tool tr of None \<Rightarrow> False | Some t \<Rightarrow> tool_type t = Some ''provider'')"

definition is_terminal :: "mcp_tool_response \<Rightarrow> bool" where
  "is_terminal tr = (tr_status tr = ''done'' \<or> tr_status tr = ''error'' \<or> tr_status tr = ''cancelled'')"

text \<open>A tool block whose invocation record says the provider executed the tool.\<close>

definition provider_block :: "tool_block \<Rightarrow> bool" where
  "provider_block b = (case rawMcpToolResponse b of None \<Rightarrow> False | Some tr \<Rightarrow> is_provider tr)"

definition parseToolCallInput :: "'m collab \<Rightarrow> json option \<Rightarrow> json option" where
  "parseToolCallInput c v =
     (case v of
        Some (JStr s) \<Rightarrow> (case safeParseJSON c s of Some j \<Rightarrow> Some j | None \<Rightarrow> Some (JStr s))
      | _ \<Rightarrow> v)"

definition tr_call_id :: "mcp_tool_response \<Rightarrow> string option" where
  "tr_call_id tr = nullish_or (tr_toolCallId tr) (tr_id tr)"

definition tr_name :: "mcp_tool_response \<Rightarrow> string option" where
  "tr_name tr =
     nullish_or (case tr_tool tr of None \<Rightarrow> None | Some t \<Rightarrow> tool_name t) (tr_toolName tr)"

definition historyToolCallPart :: "'m collab \<Rightarrow> mcp_tool_response \<Rightarrow> part" where
  "historyToolCallPart c tr =
     ToolCallPart (tr_call_id tr) (tr_name tr) (parseToolCallInput c (tr_arguments tr))"

definition historyToolResultPart :: "mcp_tool_response \<Rightarrow> part" where
  "historyToolResultPart tr =
     (let v = (if tr_status tr = ''cancelled''
                  \<and> (tr_response tr = None \<or> tr_response tr = Some JNull)
               then Some ''cancelled''
               else stringifyToolOutput (tr_response tr))
      in ToolResultPart (tr_call_id tr) (tr_name tr)
           (if tr_status tr = ''error'' \<or> tr_status tr = ''cancelled''
            then OutputErrorText v else OutputText v))"

definition buildToolHistoryMessages :: "'m collab \<Rightarrow> tool_block list \<Rightarrow> model_message list" where
  "buildToolHistoryMessages c tbs =
     (let toolResponses = List.map_filter rawMcpToolResponse tbs;
          replayable = filter (\<lambda>tr. \<not> is_provider tr) toolResponses
      in if length replayable = 0 then []
         else (let toolCallParts = map (historyToolCallPart c) replayable;
                   toolResultParts = map historyToolResultPart (filter is_terminal replayable)
               in (if length toolCallParts > 0
                   then [ModelMessage Assistant (ContentParts toolCallParts)] else [])
                  @ (if length toolResultParts > 0
                     then [ModelMessage Tool (ContentParts toolResultParts)] else [])))"

definition convertMessageToAssistantModelMessage_p2 ::
  "'m collab \<Rightarrow> message \<Rightarrow> string \<Rightarrow> file_block list \<Rightarrow> string list \<Rightarrow> 'm option \<Rightarrow> sdk_param" where
  "convertMessageToAssistantModelMessage_p2 c m text fbs thinking model =
     (let toolHistoryMessages = buildToolHistoryMessages c (toolBlocks m);
          parts = (if text \<noteq> [] then [TextPart text] else [])
                  @ map ReasoningPart thinking
                  @ assistantFileParts c model fbs;
          assistantMessage = ModelMessage Assistant (ContentParts parts);
          hasAssistantContent = (length parts > 0)
      in if length toolHistoryMessages = 0 then Single assistantMessage
         else if hasAssistantContent then Multiple (toolHistoryMessages @ [assistantMessage])
         else Multiple toolHistoryMessages)"

definition convertMessageToSdkParam_p2 ::
  "'m collab \<Rightarrow> message \<Rightarrow> bool \<Rightarrow> 'm option \<Rightarrow> error + sdk_param" where
  "convertMessageToSdkParam_p2 c m isVision model =
     (if role m = User \<or> role m = System
      then convertMessageToUserModelMessage c (mainTextContent m) (fileBlocks m) (imageBlocks m)
             isVision model
      else Inr (convertMessageToAssistantModelMessage_p2 c m (mainTextContent m) (fileBlocks m)
                  (thinkingBlocks m) model))"

section \<open>Concrete inputs\<close>

text \<open>
  The tool block, the message and the collaborators of the module's test suite
  (\<^verbatim>\<open>createMockToolBlock\<close> and the \<^verbatim>\<open>jest\<close> mocks: no file is ever converted).
\<close>

definition mock_tool_block :: tool_block where
  "mock_tool_block =
     \<lparr>block_id = ''tool-1'', toolId = Some ''call_123'', toolName = Some ''test_tool'',
      arguments = Some [(''key'', JStr ''value'')],
      content = Some (JStr ''Tool execution result''), rawMcpToolResponse = None\<rparr>"

definition mock_collab :: "unit collab" where
  "mock_collab =
     \<lparr>convertFileBlockToFilePart = (\<lambda>fb m. None), convertFileBlockToTextPart = (\<lambda>fb. None),
      readImageFile = (\<lambda>p. None), isVisionModel = (\<lambda>m. False),
      isImageEnhancementModel = (\<lambda>m. False), findImageBlocksOfUndefined = Inr [],
      safeParseJSON = (\<lambda>t. None)\<rparr>"

definition assistant_with :: "tool_block list \<Rightarrow> message" where
  "assistant_with tbs =
     \<lparr>role = Assistant, mainTextContent = [], fileBlocks = [], imageBlocks = [],
      thinkingBlocks = [], toolBlocks = tbs\<rparr>"

definition sample_entropy :: entropy where
  "sample_entropy n = (n, ''x'')"

definition empty_cache :: id_state where
  "empty_cache = \<lparr>toolCallIdCache = Map.empty, generated = 0\<rparr>"





definition tool_message :: message where
  "tool_message =
     \<lparr>role = Tool, mainTextContent = [], fileBlocks = [], imageBlocks = [], thinkingBlocks = [],
      toolBlocks = [mock_tool_block, mock_tool_block\<lparr>block_id := ''tool-2'', content := None\<rparr>]\<rparr>"

text \<open>Invocation records: finished, provider-executed, cancelled with no response, pending.\<close>

definition tr_done :: mcp_tool_response where
  "tr_done =
     \<lparr>tr_id = Some ''r1'', tr_toolCallId = Some ''call_a'',
      tr_tool = Some \<lparr>tool_type = Some ''mcp'', tool_name = Some ''search''\<rparr>,
      tr_toolName = None, tr_arguments = Some (JObj [(''q'', JStr ''cats'')]),
      tr_status = ''done'', tr_response = Some (JStr ''found'')\<rparr>"

definition tr_provider :: mcp_tool_response where
  "tr_provider =
     tr_done\<lparr>tr_id := Some ''r2'', tr_toolCallId := Some ''call_b'',
       tr_tool := Some \<lparr>tool_type = Some ''provider'', tool_name = Some ''web_search''\<rparr>\<rparr>"

definition tr_cancelled :: mcp_tool_response where
  "tr_cancelled =
     tr_done\<lparr>tr_id := Some ''r3'', tr_toolCallId := None, tr_status := ''cancelled'',
       tr_response := None\<rparr>"

definition tr_pending :: mcp_tool_response where
  "tr_pending =
     tr_done\<lparr>tr_id := Some ''r4'', tr_toolCallId := Some ''call_d'', tr_status := ''pending'',
       tr_response := None\<rparr>"

definition history_blocks :: "tool_block list" where
  "history_blocks =
     [mock_tool_block\<lparr>rawMcpToolResponse := Some tr_done\<rparr>,
      mock_tool_block\<lparr>rawMcpToolResponse := Some tr_provider\<rparr>,
      mock_tool_block,
      mock_tool_block\<lparr>rawMcpToolResponse := Some tr_cancelled\<rparr>,
      mock_tool_block\<lparr>rawMcpToolResponse := Some tr_pending\<rparr>]"

text \<open>A vision model and a user message with an inline SVG image that is not base64.\<close>

definition vision_collab :: "unit collab" where
  "vision_collab = mock_collab\<lparr>isVisionModel := (\<lambda>m. True)\<rparr>"

definition svg_image_block :: image_block where
  "svg_image_block = \<lparr>image_file = None, image_url = Some ''data:image/svg+xml;utf8,<svg/>''\<rparr>"

definition user_with_image :: "image_block \<Rightarrow> message" where
  "user_with_image ib =
     \<lparr>role = User, mainTextContent = ''describe this'', fileBlocks = [], imageBlocks = [ib],
      thinkingBlocks = [], toolBlocks = []\<rparr>"

text \<open>
  A file processor that uploads every file and answers with a handle, for a model that
  is an image enhancement model; a user message with one attached file; a conversation
  that ends with an assistant message carrying an image and that user message.
\<close>

definition handle_part :: file_part where
  "handle_part = \<lparr>data = DataString ''fileid://file-1'', mediaType = ''application/pdf'', filename = None\<rparr>"

definition handle_collab :: "unit collab" where
  "handle_collab =
     mock_collab\<lparr>convertFileBlockToFilePart := (\<lambda>fb m. Some handle_part),
       isImageEnhancementModel := (\<lambda>m. True)\<rparr>"

definition user_with_file :: message where
  "user_with_file =
     \<lparr>role = User, mainTextContent = ''make it blue'',
      fileBlocks = [\<lparr>file_path = ''/docs/brief.pdf'', origin_name = ''brief.pdf''\<rparr>],
      imageBlocks = [], thinkingBlocks = [], toolBlocks = []\<rparr>"

text \<open>The same file processor for a vision model, and the user message with the SVG image added.\<close>

definition vision_handle_collab :: "unit collab" where
  "vision_handle_collab = handle_collab\<lparr>isVisionModel := (\<lambda>m. True)\<rparr>"

definition user_with_file_and_image :: message where
  "user_with_file_and_image = user_with_file\<lparr>imageBlocks := [svg_image_block]\<rparr>"

definition enhancement_conversation :: "message list" where
  "enhancement_conversation =
     [\<lparr>role = User, mainTextContent = ''draw a cat'', fileBlocks = [], imageBlocks = [],
       thinkingBlocks = [], toolBlocks = []\<rparr>,
      \<lparr>role = Assistant, mainTextContent = ''here it is'', fileBlocks = [],
       imageBlocks = [\<lparr>image_file = None, image_url = Some ''https://example.com/cat.png''\<rparr>],
       thinkingBlocks = [], toolBlocks = []\<rparr>,
      user_with_file]"

section \<open>Properties of the one-part tool pairing\<close>

text \<open>Every number of the type lies in the range that is printed exactly.\<close>

lemma json_number_range:
  "- ((2::int) ^ 53) \<le> sint (n :: 54 word) \<and> sint n < (2::int) ^ 53"
  using sint_ge[of n] sint_lt[of n] by simp

text \<open>
  C2.  In the one-part mode (\<open>convertToolBlockToToolPart\<close>), a tool block with a
  non-null content and a non-empty argument object yields exactly one part, a
  tool-result carrying the derived identifier, the tool name and the serialized
  content; no tool-call is produced for it, and the loop of the assistant message
  pushes this one part for the block.
\<close>

theorem convertToolBlockToToolPart_prefers_result:
  assumes "content b = Some c" and "c \<noteq> JNull"
    and "arguments b = Some kvs" and "kvs \<noteq> []"
  shows "fst (convertToolBlockToToolPart e b s) =
           Some (ToolResultPart (Some (fst (getToolCallId e b s)))
                   (Some (or_default (toolName b) ''unknown_tool''))
                   (OutputString (content_output b)))
       \<and> fst (toolPartsLoop e [b] s) =
           [ToolResultPart (Some (fst (getToolCallId e b s)))
              (Some (or_default (toolName b) ''unknown_tool''))
              (OutputString (content_output b))]"
  using assms
  by (simp add: convertToolBlockToToolPart_def has_content_def split: prod.splits)

theorem convertToolBlockToToolPart_prefers_result_witness:
  "content mock_tool_block = Some (JStr ''Tool execution result'')
   \<and> arguments mock_tool_block = Some [(''key'', JStr ''value'')]
   \<and> fst (convertToolBlockToToolPart sample_entropy mock_tool_block empty_cache) =
       Some (ToolResultPart (Some ''call_123'') (Some ''test_tool'')
               (OutputString ''Tool execution result''))
   \<and> fst (toolPartsLoop sample_entropy [mock_tool_block] empty_cache) =
       [ToolResultPart (Some ''call_123'') (Some ''test_tool'')
          (OutputString ''Tool execution result'')]"
  using convertToolBlockToToolPart_prefers_result
    [of mock_tool_block "JStr ''Tool execution result''" "[(''key'', JStr ''value'')]"
        sample_entropy empty_cache]
  by (simp add: mock_tool_block_def getToolCallId_def or_default_def content_output_def)

text \<open>
  In the one-part mode a block with neither content nor a non-empty argument object
  yields no part, and the assistant message of the test suite's block has no tool part.
\<close>

lemma convertToolBlockToToolPart_none:
  "\<not> has_content b \<Longrightarrow> \<not> has_arguments b \<Longrightarrow> fst (convertToolBlockToToolPart e b s) = None"
  by (simp add: convertToolBlockToToolPart_def split: prod.splits)

lemma one_part_skips_empty_block:
  "fst (convertMessageToSdkParam_p1 sample_entropy mock_collab
          (assistant_with [mock_tool_block\<lparr>arguments := None, content := None\<rparr>])
          False None empty_cache) =
   Inr (Single (ModelMessage Assistant (ContentParts [])))"
  by (simp add: convertMessageToSdkParam_p1_def assistant_with_def mock_tool_block_def
      convertMessageToAssistantModelMessage_p1_def convertToolBlockToToolPart_def
      has_content_def has_arguments_def getToolCallId_def split: prod.splits)

text \<open>
  In the one-part mode the output of a tool-result is the content itself when it is a
  string and its \<^verbatim>\<open>JSON.stringify\<close> text otherwise; the object of the test suite is
  serialized with its keys in their order.
\<close>

lemma content_output_string: "content b = Some (JStr t) \<Longrightarrow> content_output b = t"
  by (simp add: content_output_def)

lemma content_output_json:
  "content b = Some v \<Longrightarrow> (\<forall>t. v \<noteq> JStr t) \<Longrightarrow> content_output b = stringify v"
  by (cases v) (simp_all add: content_output_def)

lemma one_part_serializes_object:
  \<open>fst (convertMessageToSdkParam_p1 sample_entropy mock_collab
          (assistant_with [mock_tool_block\<lparr>arguments := None,
             content := Some (JObj [(''data'', JStr ''value''), (''number'', JNum 42)])\<rparr>])
          False None empty_cache) =
   Inr (Single (ModelMessage Assistant
     (ContentParts
        [ToolResultPart (Some ''call_123'') (Some ''test_tool'')
           (OutputString ''{"data":"value","number":42}'')])))\<close>
  by (simp add: convertMessageToSdkParam_p1_def assistant_with_def mock_tool_block_def
      convertMessageToAssistantModelMessage_p1_def convertToolBlockToToolPart_def
      has_content_def has_arguments_def getToolCallId_def content_output_def or_default_def
      quote_json_def escape_char_def show_int_def show_nat.simps digit_char_def
      split: prod.splits)

text \<open>
  C10.  A tool block whose content is the empty string has a result: presence is
  tested against \<^verbatim>\<open>undefined\<close> and \<^verbatim>\<open>null\<close> only.  The one-part mode returns a tool-result
  with output \<^verbatim>\<open>""\<close> for it, whatever its arguments are, and never a tool-call; the
  call-and-result mode emits the call part followed by a tool-result whose text value is
  \<^verbatim>\<open>""\<close>.
\<close>

theorem empty_string_content_is_a_result:
  assumes "content b = Some (JStr [])"
  shows "hasToolResult b
    \<and> fst (convertToolBlockToToolPart e b s) =
        Some (ToolResultPart (Some (fst (getToolCallId e b s)))
               (Some (or_default (toolName b) ''unknown_tool'')) (OutputString []))
    \<and> toolBlockParts [b] =
        [convertToolBlockToToolCallPart b,
         ToolResultPart (toolId b) (Some (or_default (toolName b) ''unknown''))
           (OutputText (Some []))]"
  using assms
  by (simp add: hasToolResult_def convertToolBlockToToolPart_def has_content_def
      content_output_def convertToolBlockToToolResultPart_def split: prod.splits)

theorem empty_string_content_is_a_result_witness:
  "hasToolResult (mock_tool_block\<lparr>content := Some (JStr [])\<rparr>)
   \<and> fst (convertToolBlockToToolPart sample_entropy
            (mock_tool_block\<lparr>content := Some (JStr [])\<rparr>) empty_cache) =
       Some (ToolResultPart (Some ''call_123'') (Some ''test_tool'') (OutputString []))"
  using empty_string_content_is_a_result
    [of "mock_tool_block\<lparr>content := Some (JStr [])\<rparr>" sample_entropy empty_cache]
  by (simp add: mock_tool_block_def getToolCallId_def or_default_def)

text \<open>
  The loop of the tool-role path returns one tool-result per block that has a content,
  in block order, each with the serialized content as output.
\<close>

lemma toolResultsLoop_parts:
  "list_all is_tool_result (fst (toolResultsLoop e tbs s))
   \<and> map part_output (fst (toolResultsLoop e tbs s)) =
       map (\<lambda>b. Some (OutputString (content_output b))) (filter has_content tbs)"
proof (induction tbs arbitrary: s)
  case Nil
  show ?case by simp
next
  case (Cons b bs)
  show ?case
  proof (cases "has_content b")
    case False
    then show ?thesis using Cons[of s] by (simp add: has_content_def)
  next
    case True
    obtain i s1 where g: "getToolCallId e b s = (i, s1)"
      by (cases "getToolCallId e b s")
    obtain ps s2 where l: "toolResultsLoop e bs s1 = (ps, s2)"
      by (cases "toolResultsLoop e bs s1")
    from True have nc: "content b \<noteq> None" "content b \<noteq> Some JNull"
      by (simp_all add: has_content_def)
    show ?thesis using Cons[of s1] True nc g l
      by (auto simp add: convertToolBlockToToolResultPart_p1_def)
  qed
qed

lemma no_content_filter:
  "list_all (\<lambda>b. content b = None \<or> content b = Some JNull) tbs \<Longrightarrow> filter has_content tbs = []"
  by (induction tbs) (auto simp: has_content_def)

text \<open>
  C8.  A tool-role message compiles, without exception, to exactly one request message
  of role tool.  All its parts are tool-results, one for each tool block that has a
  content, in block order and with the serialized content as output: a block whose
  content is \<^verbatim>\<open>undefined\<close> or \<^verbatim>\<open>null\<close> is skipped.  When no block has a content the
  message has an empty part list.
\<close>

theorem tool_role_message_compiles_to_results:
  assumes "role m = Tool"
  shows "\<exists>parts s'.
      convertMessageToSdkParam_p1 e c m isVision model s =
        (Inr (Single (ModelMessage Tool (ContentParts parts))), s')
    \<and> list_all is_tool_result parts
    \<and> map part_output parts =
        map (\<lambda>b. Some (OutputString (content_output b))) (filter has_content (toolBlocks m))
    \<and> (list_all (\<lambda>b. content b = None \<or> content b = Some JNull) (toolBlocks m)
         \<longrightarrow> parts = [])"
proof -
  obtain ps s1 where l: "toolResultsLoop e (toolBlocks m) s = (ps, s1)"
    by (cases "toolResultsLoop e (toolBlocks m) s")
  have p: "list_all is_tool_result ps"
    "map part_output ps =
       map (\<lambda>b. Some (OutputString (content_output b))) (filter has_content (toolBlocks m))"
    using toolResultsLoop_parts[of e "toolBlocks m" s] l by simp_all
  have e: "list_all (\<lambda>b. content b = None \<or> content b = Some JNull) (toolBlocks m) \<longrightarrow> ps = []"
    using p(2) no_content_filter[of "toolBlocks m"] by auto
  have "convertMessageToSdkParam_p1 e c m isVision model s =
        (Inr (Single (ModelMessage Tool (ContentParts ps))), s1)"
    using assms l by (simp add: convertMessageToSdkParam_p1_def convertMessageToToolModelMessage_def)
  with p e show ?thesis by blast
qed

theorem tool_role_message_compiles_to_results_witness:
  "role tool_message = Tool
   \<and> (\<exists>parts s'.
        convertMessageToSdkParam_p1 sample_entropy mock_collab tool_message False None empty_cache =
          (Inr (Single (ModelMessage Tool (ContentParts parts))), s')
      \<and> list_all is_tool_result parts
      \<and> map part_output parts = [Some (OutputString ''Tool execution result'')])"
  using tool_role_message_compiles_to_results
    [of tool_message sample_entropy mock_collab False None empty_cache]
  by (simp add: tool_message_def mock_tool_block_def has_content_def content_output_def)

section \<open>Properties of the tool-call identifier\<close>













text \<open>
  In messageConverter.ts both parts of a block carry the block's \<open>toolId\<close> field as it
  is, absent or not.
\<close>

lemma call_and_result_ids:
  "\<exists>n a. convertToolBlockToToolCallPart b = ToolCallPart (toolId b) n a"
  "\<exists>n out. convertToolBlockToToolResultPart b = ToolResultPart (toolId b) n out"
  by (simp_all add: convertToolBlockToToolCallPart_def convertToolBlockToToolResultPart_def)




section \<open>Properties of the call-and-result tool pairing\<close>

text \<open>
  C1.  The specification asks for no part at all from a tool block with neither content
  nor arguments.  In messageConverter.ts the loop pushes a tool-call for every block:
  the block of the test \<^verbatim>\<open>should skip tool blocks without content and arguments\<close>
  compiles to an assistant message with one tool-call part whose input is the empty
  object.
\<close>

theorem empty_tool_block_still_emits_call:
  "convertMessageToSdkParam mock_collab
     (assistant_with [mock_tool_block\<lparr>arguments := None, content := None\<rparr>]) False None =
   Inr (Single (ModelMessage Assistant
     (ContentParts [ToolCallPart (Some ''call_123'') (Some ''test_tool'') (Some (JObj []))])))"
  by (simp add: convertMessageToSdkParam_def assistant_with_def mock_tool_block_def
      convertMessageToAssistantAndToolMessages_def convertToolBlockToToolCallPart_def
      hasToolResult_def or_default_def)

text \<open>
  C3.  The specification asks for the \<^verbatim>\<open>JSON.stringify\<close> text of a content that is not
  a string.
  In messageConverter.ts the tool-result of the test
  \<^verbatim>\<open>should convert object content to JSON string in tool-result\<close> carries the object
  itself, tagged \<^verbatim>\<open>json\<close>, and not the string.
\<close>

theorem object_content_is_not_serialized:
  "convertMessageToSdkParam mock_collab
     (assistant_with [mock_tool_block\<lparr>arguments := None,
        content := Some (JObj [(''data'', JStr ''value''), (''number'', JNum 42)])\<rparr>])
     False None =
   Inr (Single (ModelMessage Assistant
     (ContentParts
        [ToolCallPart (Some ''call_123'') (Some ''test_tool'') (Some (JObj [])),
         ToolResultPart (Some ''call_123'') (Some ''test_tool'')
           (OutputJson (JObj [(''data'', JStr ''value''), (''number'', JNum 42)]))])))"
  by (simp add: convertMessageToSdkParam_def assistant_with_def mock_tool_block_def
      convertMessageToAssistantAndToolMessages_def convertToolBlockToToolCallPart_def
      convertToolBlockToToolResultPart_def hasToolResult_def or_default_def)

section \<open>Properties of the tool history replay\<close>

lemma replayable_without_provider_blocks:
  "filter (\<lambda>tr. \<not> is_provider tr) (List.map_filter rawMcpToolResponse (filter (\<lambda>b. \<not> provider_block b) tbs))
   = filter (\<lambda>tr. \<not> is_provider tr) (List.map_filter rawMcpToolResponse tbs)"
  by (induction tbs) (auto simp: List.map_filter_simps provider_block_def split: option.splits)

lemma history_cancelled:
  "tr_status tr = ''cancelled'' \<Longrightarrow> tr_response tr = None \<or> tr_response tr = Some JNull \<Longrightarrow>
   historyToolResultPart tr = ToolResultPart (tr_call_id tr) (tr_name tr) (OutputErrorText (Some ''cancelled''))"
  by (auto simp: historyToolResultPart_def)

lemma history_error_kind:
  "tr_status tr = ''error'' \<or> tr_status tr = ''cancelled'' \<Longrightarrow>
   \<exists>v. historyToolResultPart tr = ToolResultPart (tr_call_id tr) (tr_name tr) (OutputErrorText v)"
  by (auto simp: historyToolResultPart_def Let_def)

lemma history_done:
  "tr_status tr = ''done'' \<Longrightarrow>
   historyToolResultPart tr = ToolResultPart (tr_call_id tr) (tr_name tr) (OutputText (stringifyToolOutput (tr_response tr)))"
  by (auto simp: historyToolResultPart_def Let_def)

lemma history_shape:
  "buildToolHistoryMessages c tbs =
     (let rs = filter (\<lambda>tr. \<not> is_provider tr) (List.map_filter rawMcpToolResponse tbs)
      in if rs = [] then []
         else ModelMessage Assistant (ContentParts (map (historyToolCallPart c) rs))
              # (if filter is_terminal rs = [] then []
                 else [ModelMessage Tool (ContentParts (map historyToolResultPart (filter is_terminal rs)))]))"
  by (simp add: buildToolHistoryMessages_def Let_def)

lemma assistant_p2:
  "role m = Assistant \<Longrightarrow>
   \<exists>r rest. convertMessageToSdkParam_p2 c m v model = Inr r
     \<and> as_list r = buildToolHistoryMessages c (toolBlocks m) @ rest
     \<and> length rest \<le> 1 \<and> list_all (\<lambda>x. msg_role x = Assistant) rest"
  by (auto simp: convertMessageToSdkParam_p2_def convertMessageToAssistantModelMessage_p2_def Let_def)


text \<open>
  C4.  The history built from the tool blocks of a message is empty, or one assistant
  message with a tool-call for every invocation record that is not provider-executed,
  in block order, followed or not by one tool message; the tool message is there
  exactly when some of these records have status \<^verbatim>\<open>done\<close>, \<^verbatim>\<open>error\<close> or \<^verbatim>\<open>cancelled\<close>,
  and holds one tool-result for each of them.  Dropping the provider-executed blocks
  beforehand changes nothing.  A cancelled record with an absent or null response has
  the value \<^verbatim>\<open>cancelled\<close>; status \<^verbatim>\<open>error\<close> or \<^verbatim>\<open>cancelled\<close> gives an error-text output and
  status \<^verbatim>\<open>done\<close> a text output.  The compiled assistant message starts with this
  history, followed by at most one assistant message of its own.
\<close>

theorem tool_history_replay:
  "buildToolHistoryMessages c tbs =
     (let rs = filter (\<lambda>r. \<not> is_provider r) (List.map_filter rawMcpToolResponse tbs)
      in if rs = [] then []
         else ModelMessage Assistant (ContentParts (map (historyToolCallPart c) rs))
              # (if filter is_terminal rs = [] then []
                 else [ModelMessage Tool
                         (ContentParts (map historyToolResultPart (filter is_terminal rs)))]))
   \<and> buildToolHistoryMessages c (filter (\<lambda>b. \<not> provider_block b) tbs) =
       buildToolHistoryMessages c tbs
   \<and> (tr_status tr = ''cancelled'' \<and> (tr_response tr = None \<or> tr_response tr = Some JNull)
        \<longrightarrow> historyToolResultPart tr =
              ToolResultPart (tr_call_id tr) (tr_name tr) (OutputErrorText (Some ''cancelled'')))
   \<and> (tr_status tr = ''error'' \<or> tr_status tr = ''cancelled''
        \<longrightarrow> (\<exists>v. historyToolResultPart tr =
                   ToolResultPart (tr_call_id tr) (tr_name tr) (OutputErrorText v)))
   \<and> (tr_status tr = ''done''
        \<longrightarrow> historyToolResultPart tr =
              ToolResultPart (tr_call_id tr) (tr_name tr)
                (OutputText (stringifyToolOutput (tr_response tr))))
   \<and> (role m = Assistant
        \<longrightarrow> (\<exists>r rest. convertMessageToSdkParam_p2 c m v model = Inr r
              \<and> as_list r = buildToolHistoryMessages c (toolBlocks m) @ rest
              \<and> length rest \<le> 1 \<and> list_all (\<lambda>x. msg_role x = Assistant) rest))"
proof (intro conjI impI)
  show "buildToolHistoryMessages c (filter (\<lambda>b. \<not> provider_block b) tbs) =
       buildToolHistoryMessages c tbs"
    by (simp add: buildToolHistoryMessages_def replayable_without_provider_blocks)
next
  assume "role m = Assistant"
  then show "\<exists>r rest. convertMessageToSdkParam_p2 c m v model = Inr r
              \<and> as_list r = buildToolHistoryMessages c (toolBlocks m) @ rest
              \<and> length rest \<le> 1 \<and> list_all (\<lambda>x. msg_role x = Assistant) rest"
    by (rule assistant_p2)
next
  show "buildToolHistoryMessages c tbs =
     (let rs = filter (\<lambda>r. \<not> is_provider r) (List.map_filter rawMcpToolResponse tbs)
      in if rs = [] then []
         else ModelMessage Assistant (ContentParts (map (historyToolCallPart c) rs))
              # (if filter is_terminal rs = [] then []
                 else [ModelMessage Tool
                         (ContentParts (map historyToolResultPart (filter is_terminal rs)))]))"
    by (rule history_shape)
qed (simp_all add: history_cancelled history_error_kind history_done)

theorem tool_history_replay_witness:
  "buildToolHistoryMessages mock_collab history_blocks =
     [ModelMessage Assistant (ContentParts
        [ToolCallPart (Some ''call_a'') (Some ''search'') (Some (JObj [(''q'', JStr ''cats'')])),
         ToolCallPart (Some ''r3'') (Some ''search'') (Some (JObj [(''q'', JStr ''cats'')])),
         ToolCallPart (Some ''call_d'') (Some ''search'') (Some (JObj [(''q'', JStr ''cats'')]))]),
      ModelMessage Tool (ContentParts
        [ToolResultPart (Some ''call_a'') (Some ''search'') (OutputText (Some ''found'')),
         ToolResultPart (Some ''r3'') (Some ''search'') (OutputErrorText (Some ''cancelled''))])]
   \<and> tr_status tr_cancelled = ''cancelled'' \<and> tr_response tr_cancelled = None
   \<and> historyToolResultPart tr_cancelled =
       ToolResultPart (Some ''r3'') (Some ''search'') (OutputErrorText (Some ''cancelled''))"
  using tool_history_replay[of mock_collab history_blocks tr_cancelled "assistant_with history_blocks" False None]
  by (simp add: history_blocks_def tr_done_def tr_provider_def tr_cancelled_def tr_pending_def
      List.map_filter_simps is_provider_def is_terminal_def historyToolCallPart_def
      historyToolResultPart_def tr_call_id_def tr_name_def nullish_or_def parseToolCallInput_def
      stringifyToolOutput_def mock_tool_block_def)


section \<open>Properties of the image materializer\<close>

text \<open>
  One block gives at most one part.  A file that cannot be read gives none; a URL that
  does not start with \<^verbatim>\<open>data:\<close> is passed through; a URL of the form
  \<^verbatim>\<open>data:<mime>;base64,<payload>\<close> gives the payload, with the mime segment as media
  type, or \<^verbatim>\<open>image/png\<close> when the segment is empty.
\<close>

lemma image_file_unreadable:
  "image_file b = Some p \<Longrightarrow> readImageFile c p = None \<Longrightarrow> imageBlockPart c b = Inr None"
  by (simp add: imageBlockPart_def)

lemma image_file_read:
  "image_file b = Some p \<Longrightarrow> readImageFile c p = Some (d, ty) \<Longrightarrow>
   imageBlockPart c b = Inr (Some (ImagePart d (Some ty)))"
  by (simp add: imageBlockPart_def)

lemma image_remote_url:
  "image_file b = None \<Longrightarrow> image_url b = Some u \<Longrightarrow> u \<noteq> [] \<Longrightarrow> \<not> starts_with ''data:'' u \<Longrightarrow>
   imageBlockPart c b = Inr (Some (ImagePart u None))"
  by (simp add: imageBlockPart_def)

lemma dropWhile_semicolon:
  "CHR '';'' \<notin> set m \<Longrightarrow> dropWhile (\<lambda>c. c \<noteq> CHR '';'') (m @ CHR '';'' # r) = CHR '';'' # r"
  by (induction m) auto

lemma takeWhile_semicolon:
  "CHR '';'' \<notin> set m \<Longrightarrow> takeWhile (\<lambda>c. c \<noteq> CHR '';'') (m @ CHR '';'' # r) = m"
  by (induction m) auto

lemma image_data_url:
  assumes "image_file b = None" and "image_url b = Some (''data:'' @ m @ '';base64,'' @ p)"
    and "CHR '';'' \<notin> set m" and "p \<noteq> []" and "\<not> list_ex is_line_terminator p"
  shows "imageBlockPart c b = Inr (Some (ImagePart p (Some (if m = [] then ''image/png'' else m))))"
proof -
  have b64: "match_data_base64 (''data:'' @ m @ '';base64,'' @ p) = Some p"
    using assms(3,4,5)
    by (simp add: match_data_base64_def starts_with_def dropWhile_semicolon)
  have mime: "match_data_mime (''data:'' @ m @ '';base64,'' @ p) = (if m = [] then None else Some m)"
    using assms(3)
    by (simp add: match_data_mime_def starts_with_def takeWhile_semicolon)
  have sw: "starts_with ''data:'' (''data:'' @ m @ '';base64,'' @ p)"
    by (simp add: starts_with_def)
  have ne: "''data:'' @ m @ '';base64,'' @ p \<noteq> []" by simp
  show ?thesis
    unfolding imageBlockPart_def assms(1,2) using sw b64 mime ne
    by (simp del: append.simps append_Cons append_Nil)
qed

text \<open>
  C7.  The specification asks the image materializer never to abort the compilation.  A URL that
  starts with \<^verbatim>\<open>data:\<close> and is not of the form \<^verbatim>\<open>data:<mime>;base64,<payload>\<close> makes the
  first match fail; its \<^verbatim>\<open>null\<close> is indexed outside any \<^verbatim>\<open>try\<close>, and the \<^verbatim>\<open>TypeError\<close>
  ends the compilation of the whole conversation.
\<close>

theorem unparsable_data_url_aborts: "convertImageBlockToImagePart vision_collab [svg_image_block] = Inl TypeError
  \<and> convertMessagesToSdkMessages vision_collab [user_with_image svg_image_block] () = Inl TypeError"
  by (simp add: svg_image_block_def imageBlockPart_def starts_with_def match_data_base64_def
      convertMessagesToSdkMessages_def convertMessageToSdkParam_def user_with_image_def
      convertMessageToUserModelMessage_def vision_collab_def mock_collab_def)


section \<open>Properties of the user message compiler\<close>

text \<open>
  File blocks whose native conversion gives no handle leave the loop running, and push
  the parts that the assistant's loop would push for them.
\<close>

lemma userFileLoop_no_handle:
  "\<forall>f\<in>set pre. \<forall>fp. nativeFilePart c model f = Some fp \<longrightarrow> \<not> is_file_handle fp \<Longrightarrow>
   userFileLoop c model (pre @ rest) parts = userFileLoop c model rest (parts @ assistantFileParts c model pre)"
  by (induction pre arbitrary: parts) (auto split: option.splits)

lemma userFileLoop_handle:
  assumes "\<forall>f\<in>set pre. \<forall>fp. nativeFilePart c model f = Some fp \<longrightarrow> \<not> is_file_handle fp"
    and "nativeFilePart c model fb = Some fp" and "data fp = DataString h"
    and "starts_with ''fileid://'' h"
  shows "userFileLoop c model (pre @ fb # post) parts =
     Multiple [ModelMessage System (ContentString h),
               ModelMessage User
                 (if parts @ assistantFileParts c model pre = [] then ContentString []
                  else ContentParts (parts @ assistantFileParts c model pre))]"
  using assms(2,3,4)
  by (auto simp add: userFileLoop_no_handle[OF assms(1)] is_file_handle_def handle_string_def)

text \<open>
  Take a user or system message compiled with a model, whose images (when the model is
  a vision model) are materialized without exception, and whose file blocks hold a
  first block \<open>fb\<close> for which the native conversion returns a string payload \<open>h\<close>
  starting with \<^verbatim>\<open>fileid://\<close>.  The result is the list of exactly two messages: a system
  message with content \<open>h\<close>, then a user message with the parts pushed before \<open>fb\<close>
  (the text, the images, the parts of the earlier file blocks), or the empty string as
  content when there is none.
\<close>

lemma user_file_handle_split:
  assumes "role m = User \<or> role m = System"
    and "(if isVision then convertImageBlockToImagePart c (imageBlocks m) else Inr []) = Inr images"
    and "fileBlocks m = pre @ fb # post"
    and "\<forall>f\<in>set pre. \<forall>p. convertFileBlockToFilePart c f mdl = Some p \<longrightarrow> \<not> is_file_handle p"
    and "convertFileBlockToFilePart c fb mdl = Some fp"
    and "data fp = DataString h" and "starts_with ''fileid://'' h"
    and "acc = (if mainTextContent m \<noteq> [] then [TextPart (mainTextContent m)] else [])
                 @ images @ assistantFileParts c (Some mdl) pre"
  shows "convertMessageToSdkParam c m isVision (Some mdl) =
     Inr (Multiple [ModelMessage System (ContentString h),
                    ModelMessage User (if acc = [] then ContentString [] else ContentParts acc)])"
proof -
  have pre: "\<forall>f\<in>set pre. \<forall>p. nativeFilePart c (Some mdl) f = Some p \<longrightarrow> \<not> is_file_handle p"
    using assms(4) by (simp add: nativeFilePart_def)
  have fb: "nativeFilePart c (Some mdl) fb = Some fp"
    using assms(5) by (simp add: nativeFilePart_def)
  show ?thesis
    using assms(1,2)
    by (auto simp add: convertMessageToSdkParam_def convertMessageToUserModelMessage_def assms(3,8)
        userFileLoop_handle[OF pre fb assms(6,7)])
qed

lemma user_file_handle_split_example:
  "role user_with_file = User
   \<and> convertFileBlockToFilePart handle_collab (hd (fileBlocks user_with_file)) () = Some handle_part
   \<and> data handle_part = DataString ''fileid://file-1''
   \<and> convertMessageToSdkParam handle_collab user_with_file False (Some ()) =
       Inr (Multiple [ModelMessage System (ContentString ''fileid://file-1''),
                      ModelMessage User (ContentParts [TextPart ''make it blue''])])"
  using user_file_handle_split[of user_with_file False handle_collab "[]" "[]"
      "\<lparr>file_path = ''/docs/brief.pdf'', origin_name = ''brief.pdf''\<rparr>" "[]" "()" handle_part
      "''fileid://file-1''" "[TextPart ''make it blue'']"]
  by (simp add: user_with_file_def handle_collab_def handle_part_def starts_with_def)

text \<open>
  C5.  The specification asks for the list of a system and a user message from every
  user message with a file block that is answered with a handle.  The images of the
  message are materialized before its files: for a vision model, the user message below
  has such a file block and an inline SVG image that is not base64, and its compilation
  ends with the \<^verbatim>\<open>TypeError\<close> of the image materializer instead of returning the list.
\<close>

theorem file_handle_split_lost_to_image_error:
  "role user_with_file_and_image = User
   \<and> map (\<lambda>fb. convertFileBlockToFilePart vision_handle_collab fb ())
        (fileBlocks user_with_file_and_image) = [Some handle_part]
   \<and> is_file_handle handle_part
   \<and> convertMessageToSdkParam vision_handle_collab user_with_file_and_image True (Some ()) =
       Inl TypeError
   \<and> convertMessagesToSdkMessages vision_handle_collab [user_with_file_and_image] () =
       Inl TypeError"
  by (simp add: user_with_file_and_image_def user_with_file_def vision_handle_collab_def
      handle_collab_def mock_collab_def handle_part_def is_file_handle_def starts_with_def
      svg_image_block_def convertMessagesToSdkMessages_def convertMessageToSdkParam_def
      convertMessageToUserModelMessage_def imageBlockPart_def match_data_base64_def)

section \<open>Properties of the conversation compiler\<close>

text \<open>
  When the last user message compiles to one request message, the image enhancement
  branch returns the first system message of the output, if there is one, then the
  compiled assistant message, then the user message with the assistant's image parts
  appended to its own.
\<close>

lemma convertAll_append:
  "convertAll c v model (xs @ ys) =
     (case convertAll c v model xs of
        Inl err \<Rightarrow> Inl err
      | Inr a \<Rightarrow> (case convertAll c v model ys of Inl err \<Rightarrow> Inl err | Inr b \<Rightarrow> Inr (a @ b)))"
  by (induction xs) (auto split: sum.splits)

lemma slice_last2_append2: "slice_last2 (xs @ [a, b]) = [a, b]"
  by (simp add: slice_last2_def)

lemma assistant_compiles_to_assistant:
  "role a = Assistant \<Longrightarrow>
   \<exists>ps. convertMessageToSdkParam c a v model = Inr (Single (ModelMessage Assistant (ContentParts ps)))"
  by (simp add: convertMessageToSdkParam_def convertMessageToAssistantAndToolMessages_def Let_def)

lemma image_enhancement_regular:
  assumes enh: "isImageEnhancementModel c model"
    and msgs: "messages = pre @ [a, u]" and ne: "pre \<noteq> []"
    and ra: "role a = Assistant"
    and cpre: "convertAll c (isVisionModel c model) (Some model) pre = Inr sdkpre"
    and ca: "convertMessageToSdkParam c a (isVisionModel c model) (Some model) = Inr (Single am)"
    and cu: "convertMessageToSdkParam c u (isVisionModel c model) (Some model) =
               Inr (Single (ModelMessage User (ContentParts ps)))"
    and imgs: "convertImageBlockToImagePart c (imageBlocks a) = Inr images"
  shows "convertMessagesToSdkMessages c messages model =
     Inr ((case filter (\<lambda>x. msg_role x = System) sdkpre of [] \<Rightarrow> [] | sys # _ \<Rightarrow> [Some sys])
          @ [Some am, Some (ModelMessage User (ContentParts (ps @ images)))])"
proof -
  let ?um = "ModelMessage User (ContentParts ps)"
  from assistant_compiles_to_assistant[OF ra, of c "isVisionModel c model" "Some model"] ca
  have am: "msg_role am = Assistant" by auto
  have all: "convertAll c (isVisionModel c model) (Some model) messages = Inr (sdkpre @ [am, ?um])"
    by (simp add: msgs convertAll_append cpre ca cu)
  have len: "length messages \<ge> 3" using ne msgs by (cases pre) simp_all
  have s1: "slice_last2 messages = [a, u]" by (simp add: msgs slice_last2_append2)
  have s2: "slice_last2 (sdkpre @ [am, ?um]) = [am, ?um]" by (rule slice_last2_append2)
  have enhd: "imageEnhancement c messages (sdkpre @ [am, ?um]) =
     Inr ((case filter (\<lambda>x. msg_role x = System) sdkpre of [] \<Rightarrow> [] | sys # _ \<Rightarrow> [Some sys])
          @ [Some am, Some (ModelMessage User (ContentParts (ps @ images)))])"
    unfolding imageEnhancement_def s1 s2
    using ra am imgs by (simp add: findImageBlocks_def split: list.splits)
  show ?thesis
    using enh len by (simp add: convertMessagesToSdkMessages_def all enhd)
qed

text \<open>
  C6.  The specification places the compiled assistant message before the user message
  in the output.  When the last user message carries a file that is answered with a handle,
  it compiles to a system and a user message; these are the last two of the compiled
  list, no assistant message is found among them, and the output holds \<^verbatim>\<open>undefined\<close> in
  the assistant's place.
\<close>

theorem enhancement_loses_assistant_after_split: "convertMessagesToSdkMessages handle_collab enhancement_conversation () =
   Inr [Some (ModelMessage System (ContentString ''fileid://file-1'')),
        None,
        Some (ModelMessage User
          (ContentParts [TextPart ''make it blue'', ImagePart ''https://example.com/cat.png'' None]))]"
  by (simp add: convertMessagesToSdkMessages_def enhancement_conversation_def user_with_file_def
      handle_collab_def mock_collab_def handle_part_def convertMessageToSdkParam_def
      convertMessageToUserModelMessage_def convertMessageToAssistantAndToolMessages_def
      nativeFilePart_def is_file_handle_def handle_string_def starts_with_def
      imageEnhancement_def slice_last2_def findImageBlocks_def imageBlockPart_def)


end
